theory Spec2Isabelle
  imports Complex_Main
begin

section \<open>Data model of the compositions module\<close>

text \<open>
  The module under verification is the custom-compositions module of the sacred
  geometry toolkit (functions \<^verbatim>\<open>create_layered_flower_of_life\<close>,
  \<^verbatim>\<open>create_mandala_from_polygons\<close>,
  \<^verbatim>\<open>create_platonic_solid_constellation\<close>, \<^verbatim>\<open>combine_patterns\<close>).

  Python floats are idealised as HOL reals; Python ints are \<open>int\<close>; a Python dict
  is a map; an exception is the left injection of a sum.
\<close>

type_synonym point2 = "real \<times> real"
type_synonym point3 = "real \<times> real \<times> real"

text \<open>
  \<^verbatim>\<open>Composition = Dict[str, List[Any]]\<close>: a dict from category name to a list of
  geometric elements. The element type is left polymorphic.
\<close>

type_synonym 'a composition = "string \<rightharpoonup> 'a list"

text \<open>
  Exceptions. \<open>ValueError\<close> is what this module raises itself (with its message).
  \<open>ZeroDivisionError\<close> is what Python raises when a float is divided by the int 0.
  \<open>InvalidParameter\<close> is the name the specification gives to a generator's rejection
  of an out-of-domain number; \<open>OtherError\<close> stands for any other exception a callee
  raises.
\<close>

datatype error =
    ValueError string
  | ZeroDivisionError
  | InvalidParameter string
  | OtherError string

text \<open>
  Python's division \<^verbatim>\<open>x / n\<close> of a float by an int: it raises ZeroDivisionError when
  \<^verbatim>\<open>n\<close> is 0. (\<^verbatim>\<open>np.pi\<close> is a plain Python float, so \<^verbatim>\<open>2 * np.pi / n\<close> is such
  a division.)
\<close>

definition py_div :: "real \<Rightarrow> int \<Rightarrow> error + real" where
  "py_div x n = (if n = 0 then Inl ZeroDivisionError else Inr (x / real_of_int n))"

text \<open>Python's \<^verbatim>\<open>d.get(key, default)\<close>.\<close>

definition dict_get :: "('k \<rightharpoonup> 'v) \<Rightarrow> 'k \<Rightarrow> 'v \<Rightarrow> 'v" where
  "dict_get d k dflt = (case d k of None \<Rightarrow> dflt | Some v \<Rightarrow> v)"

section \<open>combine_patterns\<close>

text \<open>
  \<^verbatim>\<open>
  def combine_patterns(pattern1_data, pattern2_data):
      combined = {
          'circles':   pattern1_data.get('circles', [])   + pattern2_data.get('circles', []),
          'lines':     pattern1_data.get('lines', [])     + pattern2_data.get('lines', []),
          'polygons':  pattern1_data.get('polygons', [])  + pattern2_data.get('polygons', []),
          '3d_shapes': pattern1_data.get('3d_shapes', []) + pattern2_data.get('3d_shapes', []),
      }
      return combined
  \<close>
\<close>

definition combine_patterns :: "'a composition \<Rightarrow> 'a composition \<Rightarrow> 'a composition" where
  "combine_patterns pattern1_data pattern2_data =
     [''circles'' \<mapsto> dict_get pattern1_data ''circles'' [] @ dict_get pattern2_data ''circles'' [],
      ''lines'' \<mapsto> dict_get pattern1_data ''lines'' [] @ dict_get pattern2_data ''lines'' [],
      ''polygons'' \<mapsto> dict_get pattern1_data ''polygons'' [] @ dict_get pattern2_data ''polygons'' [],
      ''3d_shapes'' \<mapsto> dict_get pattern1_data ''3d_shapes'' [] @ dict_get pattern2_data ''3d_shapes'' []]"

text \<open>The four category names that \<^verbatim>\<open>combine_patterns\<close> writes.\<close>

definition categories :: "string set" where
  "categories = {''circles'', ''lines'', ''polygons'', ''3d_shapes''}"

text \<open>The empty dict \<^verbatim>\<open>{}\<close>, and the composition holding four empty lists.\<close>

definition empty_composition :: "'a composition" where
  "empty_composition = Map.empty"

definition blank_composition :: "'a composition" where
  "blank_composition =
     [''circles'' \<mapsto> [], ''lines'' \<mapsto> [], ''polygons'' \<mapsto> [], ''3d_shapes'' \<mapsto> []]"

section \<open>create_layered_flower_of_life\<close>

text \<open>
  The generator \<^verbatim>\<open>create_flower_of_life(center, radius, layers)\<close> lives in the core
  module, which this development takes as a parameter: any function from its three
  arguments to a list of circles, or an exception.
\<close>

type_synonym 'g fol_generator = "point2 \<Rightarrow> real \<Rightarrow> int \<Rightarrow> error + 'g list"

text \<open>One invocation of the generator, by its arguments (center, radius, layers).\<close>

type_synonym fol_call = "point2 \<times> real \<times> int"

text \<open>
  The loop \<^verbatim>\<open>for i in range(num_fol_layers)\<close>. The state is the list of generator
  invocations made so far and \<^verbatim>\<open>all_circles\<close>. An exception of the generator
  ends the loop. The subscripts \<open>radii ! i\<close>, \<open>layers_per_radius ! i\<close> and
  \<open>offsets ! i\<close> are in range, since the loop is entered only after the length check
  and \<open>i\<close> is below \<^verbatim>\<open>num_fol_layers\<close>.
  \<^verbatim>\<open>
      for i in range(num_fol_layers):
          fol_center_x = center[0] + offsets[i][0]
          fol_center_y = center[1] + offsets[i][1]
          fol_radius = radii[i]
          fol_growth_layers = layers_per_radius[i]
          current_fol_circles = create_flower_of_life(
              center=(fol_center_x, fol_center_y), radius=fol_radius, layers=fol_growth_layers)
          all_circles.extend(current_fol_circles)
  \<close>
\<close>

fun fol_loop ::
  "'g fol_generator \<Rightarrow> point2 \<Rightarrow> real list \<Rightarrow> int list \<Rightarrow> point2 list \<Rightarrow> nat list \<Rightarrow>
     fol_call list \<times> 'g list \<Rightarrow> fol_call list \<times> (error + 'g list)" where
  "fol_loop create_flower_of_life center radii layers_per_radius offsets [] (calls, all_circles) =
     (calls, Inr all_circles)"
| "fol_loop create_flower_of_life center radii layers_per_radius offsets (i # rest) (calls, all_circles) =
     (let fol_center_x = fst center + fst (offsets ! i);
          fol_center_y = snd center + snd (offsets ! i);
          fol_radius = radii ! i;
          fol_growth_layers = layers_per_radius ! i;
          calls' = calls @ [((fol_center_x, fol_center_y), fol_radius, fol_growth_layers)]
      in case create_flower_of_life (fol_center_x, fol_center_y) fol_radius fol_growth_layers of
           Inl e \<Rightarrow> (calls', Inl e)
         | Inr current_fol_circles \<Rightarrow>
             fol_loop create_flower_of_life center radii layers_per_radius offsets rest
               (calls', all_circles @ current_fol_circles))"

text \<open>
  The function returns the generator invocations it made together with its outcome:
  the exception raised, or the returned dict.
  \<^verbatim>\<open>
      all_circles = []
      num_fol_layers = len(radii)
      if offsets is None:
          offsets = [(0, 0)] * num_fol_layers
      if rotations is None:
          rotations = [0.0] * num_fol_layers
      if not (len(layers_per_radius) == num_fol_layers and
              len(offsets) == num_fol_layers and
              len(rotations) == num_fol_layers):
          raise ValueError("Mismatch in lengths of radii, layers_per_radius, offsets, or rotations.")
      for i in range(num_fol_layers): ...
      return {'circles': all_circles, 'lines': [], 'polygons': []}
  \<close>
\<close>

definition effective_offsets :: "nat \<Rightarrow> point2 list option \<Rightarrow> point2 list" where
  "effective_offsets num_fol_layers offsets =
     (case offsets of None \<Rightarrow> replicate num_fol_layers (0, 0) | Some offs \<Rightarrow> offs)"

definition effective_rotations :: "nat \<Rightarrow> real list option \<Rightarrow> real list" where
  "effective_rotations num_fol_layers rotations =
     (case rotations of None \<Rightarrow> replicate num_fol_layers 0.0 | Some rots \<Rightarrow> rots)"

definition create_layered_flower_of_life ::
  "'g fol_generator \<Rightarrow> point2 \<Rightarrow> real list \<Rightarrow> int list \<Rightarrow> point2 list option \<Rightarrow>
     real list option \<Rightarrow> fol_call list \<times> (error + 'g composition)" where
  "create_layered_flower_of_life create_flower_of_life center radii layers_per_radius offsets rotations =
     (let num_fol_layers = length radii;
          offsets = effective_offsets num_fol_layers offsets;
          rotations = effective_rotations num_fol_layers rotations
      in if \<not> (length layers_per_radius = num_fol_layers \<and>
                length offsets = num_fol_layers \<and>
                length rotations = num_fol_layers)
         then ([], Inl (ValueError
                 ''Mismatch in lengths of radii, layers_per_radius, offsets, or rotations.''))
         else (case fol_loop create_flower_of_life center radii layers_per_radius offsets
                      [0..<num_fol_layers] ([], []) of
                 (calls, Inl e) \<Rightarrow> (calls, Inl e)
               | (calls, Inr all_circles) \<Rightarrow>
                   (calls, Inr [''circles'' \<mapsto> all_circles, ''lines'' \<mapsto> [], ''polygons'' \<mapsto> []])))"


section \<open>create_mandala_from_polygons\<close>

text \<open>
  An element spec is a dict with the optional keys type, sides, radius, offset_r,
  offset_angle and rotation; the code reads each with \<^verbatim>\<open>.get\<close> and ignores every
  other key. The record is the typed view of that dict: a field is \<open>None\<close> when the
  key is absent.
\<close>

record element_def =
  spec_type :: "string option"
  spec_sides :: "int option"
  spec_radius :: "real option"
  spec_offset_r :: "real option"
  spec_offset_angle :: "real option"
  spec_rotation :: "real option"

text \<open>\<^verbatim>\<open>element_def.get(key, default)\<close> on the typed view.\<close>

definition get_or :: "'a option \<Rightarrow> 'a \<Rightarrow> 'a" where
  "get_or v dflt = (case v of None \<Rightarrow> dflt | Some x \<Rightarrow> x)"

text \<open>
  The generators \<^verbatim>\<open>create_regular_polygon(center, radius, sides, rotation)\<close> and
  \<^verbatim>\<open>create_circle(center, radius)\<close> of the core module, as parameters.
\<close>

type_synonym 'g polygon_generator = "point2 \<Rightarrow> real \<Rightarrow> int \<Rightarrow> real \<Rightarrow> error + 'g"
type_synonym 'g circle_generator = "point2 \<Rightarrow> real \<Rightarrow> error + 'g"

text \<open>
  The default elements of one segment, used when \<^verbatim>\<open>segment_elements is None\<close>.
\<close>

definition default_segment_elements :: "real \<Rightarrow> element_def list" where
  "default_segment_elements base_radius =
     [\<lparr>spec_type = Some ''polygon'', spec_sides = Some 6, spec_radius = Some (0.5 * base_radius / 3),
       spec_offset_r = Some (1.0 * base_radius / 3), spec_offset_angle = Some 0,
       spec_rotation = Some (pi / 6)\<rparr>,
      \<lparr>spec_type = Some ''polygon'', spec_sides = Some 3, spec_radius = Some (0.3 * base_radius / 3),
       spec_offset_r = Some (1.8 * base_radius / 3), spec_offset_angle = Some (pi / 24),
       spec_rotation = Some 0\<rparr>,
      \<lparr>spec_type = Some ''circle'', spec_sides = None, spec_radius = Some (0.1 * base_radius / 3),
       spec_offset_r = Some (2.5 * base_radius / 3), spec_offset_angle = Some 0,
       spec_rotation = None\<rparr>]"

text \<open>
  The element's own center.
  \<^verbatim>\<open>
      el_offset_r = element_def.get('offset_r', 0.0)
      el_offset_angle = element_def.get('offset_angle', 0.0)
      element_center_angle = current_segment_angle + el_offset_angle
      element_center_x = center[0] + el_offset_r * np.cos(element_center_angle)
      element_center_y = center[1] + el_offset_r * np.sin(element_center_angle)
  \<close>
\<close>

definition element_center :: "point2 \<Rightarrow> real \<Rightarrow> element_def \<Rightarrow> point2" where
  "element_center center current_segment_angle element_def =
     (let el_offset_r = get_or (spec_offset_r element_def) 0.0;
          el_offset_angle = get_or (spec_offset_angle element_def) 0.0;
          element_center_angle = current_segment_angle + el_offset_angle;
          element_center_x = fst center + el_offset_r * cos element_center_angle;
          element_center_y = snd center + el_offset_r * sin element_center_angle
      in (element_center_x, element_center_y))"

text \<open>
  The body of the inner loop, for one element spec. The state is the pair
  (\<^verbatim>\<open>all_polygons\<close>, \<^verbatim>\<open>all_circles\<close>).
  \<^verbatim>\<open>
      el_type = element_def.get('type')
      el_radius = element_def.get('radius', 0.1)
      ...
      if el_type == 'polygon':
          sides = element_def.get('sides', 3)
          rotation = element_def.get('rotation', 0.0) + current_segment_angle
          poly = create_regular_polygon(center=element_center, radius=el_radius,
                                        sides=sides, rotation=rotation)
          all_polygons.append(poly)
      elif el_type == 'circle':
          circ = create_circle(center=element_center, radius=el_radius)
          all_circles.append(circ)
      # Add more element types (lines, custom shapes) here
  \<close>
\<close>

definition mandala_element ::
  "'g polygon_generator \<Rightarrow> 'g circle_generator \<Rightarrow> point2 \<Rightarrow> real \<Rightarrow> element_def \<Rightarrow>
     'g list \<times> 'g list \<Rightarrow> error + ('g list \<times> 'g list)" where
  "mandala_element create_regular_polygon create_circle center current_segment_angle element_def acc =
     (let el_type = spec_type element_def;
          el_radius = get_or (spec_radius element_def) 0.1;
          element_center = element_center center current_segment_angle element_def
      in if el_type = Some ''polygon'' then
           (let sides = get_or (spec_sides element_def) 3;
                rotation = get_or (spec_rotation element_def) 0.0 + current_segment_angle
            in case create_regular_polygon element_center el_radius sides rotation of
                 Inl e \<Rightarrow> Inl e
               | Inr poly \<Rightarrow> Inr (fst acc @ [poly], snd acc))
         else if el_type = Some ''circle'' then
           (case create_circle element_center el_radius of
              Inl e \<Rightarrow> Inl e
            | Inr circ \<Rightarrow> Inr (fst acc, snd acc @ [circ]))
         else Inr acc)"


definition is_circle_spec :: "element_def \<Rightarrow> bool" where
  "is_circle_spec element_def = (spec_type element_def = Some ''circle'')"


text \<open>The inner loop \<^verbatim>\<open>for element_def in segment_elements\<close>, for one segment.\<close>

fun mandala_segment ::
  "'g polygon_generator \<Rightarrow> 'g circle_generator \<Rightarrow> point2 \<Rightarrow> real \<Rightarrow> element_def list \<Rightarrow>
     'g list \<times> 'g list \<Rightarrow> error + ('g list \<times> 'g list)" where
  "mandala_segment create_regular_polygon create_circle center current_segment_angle [] acc = Inr acc"
| "mandala_segment create_regular_polygon create_circle center current_segment_angle
       (element_def # rest) acc =
     (case mandala_element create_regular_polygon create_circle center current_segment_angle
             element_def acc of
        Inl e \<Rightarrow> Inl e
      | Inr acc' \<Rightarrow>
          mandala_segment create_regular_polygon create_circle center current_segment_angle rest acc')"

text \<open>
  The outer loop \<^verbatim>\<open>for i in range(num_segments)\<close>, with
  \<^verbatim>\<open>current_segment_angle = i * segment_angle_step\<close>.
\<close>

fun mandala_segments ::
  "'g polygon_generator \<Rightarrow> 'g circle_generator \<Rightarrow> point2 \<Rightarrow> real \<Rightarrow> element_def list \<Rightarrow>
     nat list \<Rightarrow> 'g list \<times> 'g list \<Rightarrow> error + ('g list \<times> 'g list)" where
  "mandala_segments create_regular_polygon create_circle center segment_angle_step segment_elements
       [] acc = Inr acc"
| "mandala_segments create_regular_polygon create_circle center segment_angle_step segment_elements
       (i # rest) acc =
     (let current_segment_angle = real i * segment_angle_step
      in case mandala_segment create_regular_polygon create_circle center current_segment_angle
                segment_elements acc of
           Inl e \<Rightarrow> Inl e
         | Inr acc' \<Rightarrow>
             mandala_segments create_regular_polygon create_circle center segment_angle_step
               segment_elements rest acc')"

text \<open>
  \<^verbatim>\<open>segment_angle_step = 2 * np.pi / num_segments\<close> is a Python float division,
  executed before the loop: for \<^verbatim>\<open>num_segments = 0\<close> it raises ZeroDivisionError.
\<close>

definition segment_angle_step :: "int \<Rightarrow> error + real" where
  "segment_angle_step num_segments = py_div (2 * pi) num_segments"

text \<open>
  \<^verbatim>\<open>
      if segment_elements is None:
          segment_elements = [ ...defaults scaled by base_radius... ]
      segment_angle_step = 2 * np.pi / num_segments
      for i in range(num_segments): ...
      return {'polygons': all_polygons, 'circles': all_circles, 'lines': []}
  \<close>
  For a negative \<^verbatim>\<open>num_segments\<close> the range is empty and the loop runs no iteration.
\<close>

definition create_mandala_from_polygons ::
  "'g polygon_generator \<Rightarrow> 'g circle_generator \<Rightarrow> point2 \<Rightarrow> int \<Rightarrow> element_def list option \<Rightarrow>
     real \<Rightarrow> error + 'g composition" where
  "create_mandala_from_polygons create_regular_polygon create_circle center num_segments
       segment_elements base_radius =
     (let segment_elements =
            (case segment_elements of
               None \<Rightarrow> default_segment_elements base_radius
             | Some els \<Rightarrow> els)
      in case segment_angle_step num_segments of
           Inl e \<Rightarrow> Inl e
         | Inr step \<Rightarrow>
             (case mandala_segments create_regular_polygon create_circle center step
                     segment_elements [0..<nat num_segments] ([], []) of
                Inl e \<Rightarrow> Inl e
              | Inr (all_polygons, all_circles) \<Rightarrow>
                  Inr [''polygons'' \<mapsto> all_polygons, ''circles'' \<mapsto> all_circles, ''lines'' \<mapsto> []]))"

section \<open>create_platonic_solid_constellation\<close>

text \<open>
  The solid generators \<^verbatim>\<open>create_<solid_type>(center, radius)\<close> live in the shapes
  module. The dynamic lookup by \<^verbatim>\<open>__import__\<close> and \<^verbatim>\<open>getattr\<close> is a lookup of the
  name \<^verbatim>\<open>create_<solid_type>\<close> in that module's namespace, which is a parameter: a
  map from attribute names to generators. \<open>None\<close> is the case in which the import or
  the attribute lookup fails.
\<close>

type_synonym 's solid_generator = "point3 \<Rightarrow> real \<Rightarrow> error + 's"
type_synonym 's shapes_module = "string \<rightharpoonup> 's solid_generator"

text \<open>
  The center of the \<open>i\<close>-th solid.
  \<^verbatim>\<open>
      constellation_angle = i * angle_step
      solid_center_x = arrangement_radius * np.cos(constellation_angle)
      solid_center_y = arrangement_radius * np.sin(constellation_angle)
      solid_center_z = 0.0
  \<close>
\<close>

definition solid_center :: "real \<Rightarrow> real \<Rightarrow> nat \<Rightarrow> point3" where
  "solid_center arrangement_radius angle_step i =
     (let constellation_angle = real i * angle_step;
          solid_center_x = arrangement_radius * cos constellation_angle;
          solid_center_y = arrangement_radius * sin constellation_angle;
          solid_center_z = 0.0
      in (solid_center_x, solid_center_y, solid_center_z))"

text \<open>The loop \<^verbatim>\<open>for i in range(num_solids)\<close>; the state is \<^verbatim>\<open>all_3d_shapes\<close>.\<close>

fun constellation_loop ::
  "'s solid_generator \<Rightarrow> real \<Rightarrow> real \<Rightarrow> real \<Rightarrow> nat list \<Rightarrow> 's list \<Rightarrow> error + 's list" where
  "constellation_loop create_solid_func arrangement_radius solid_radius angle_step [] all_3d_shapes =
     Inr all_3d_shapes"
| "constellation_loop create_solid_func arrangement_radius solid_radius angle_step (i # rest)
       all_3d_shapes =
     (case create_solid_func (solid_center arrangement_radius angle_step i) solid_radius of
        Inl e \<Rightarrow> Inl e
      | Inr solid_data \<Rightarrow>
          constellation_loop create_solid_func arrangement_radius solid_radius angle_step rest
            (all_3d_shapes @ [solid_data]))"

text \<open>
  \<^verbatim>\<open>
      try:
          shapes_module = __import__('sacred_geometry.shapes.shapes', fromlist=[f'create_{solid_type}'])
          create_solid_func = getattr(shapes_module, f'create_{solid_type}')
      except (ImportError, AttributeError):
          raise ValueError(f"Unsupported or unknown solid type: {solid_type}")
      all_3d_shapes = []
      angle_step = 2 * np.pi / num_solids
      for i in range(num_solids): ...
      return {'3d_shapes': all_3d_shapes, 'circles': [], 'lines': [], 'polygons': []}
  \<close>
  The division \<^verbatim>\<open>2 * np.pi / num_solids\<close> stands after the \<^verbatim>\<open>try\<close> block and before
  the loop: with a resolved generator and \<^verbatim>\<open>num_solids = 0\<close> it raises
  ZeroDivisionError. The argument \<^verbatim>\<open>solid_rotation_offset\<close> is part of the signature.
\<close>

definition create_platonic_solid_constellation ::
  "'s shapes_module \<Rightarrow> string \<Rightarrow> int \<Rightarrow> real \<Rightarrow> real \<Rightarrow> real \<Rightarrow> error + 's composition" where
  "create_platonic_solid_constellation shapes_module solid_type num_solids arrangement_radius
       solid_radius solid_rotation_offset =
     (case shapes_module (''create_'' @ solid_type) of
        None \<Rightarrow> Inl (ValueError (''Unsupported or unknown solid type: '' @ solid_type))
      | Some create_solid_func \<Rightarrow>
          (case py_div (2 * pi) num_solids of
             Inl e \<Rightarrow> Inl e
           | Inr angle_step \<Rightarrow>
               (case constellation_loop create_solid_func arrangement_radius solid_radius angle_step
                       [0..<nat num_solids] [] of
                  Inl e \<Rightarrow> Inl e
                | Inr all_3d_shapes \<Rightarrow>
                    Inr [''3d_shapes'' \<mapsto> all_3d_shapes, ''circles'' \<mapsto> [], ''lines'' \<mapsto> [],
                         ''polygons'' \<mapsto> []])))"

section \<open>The core generators, from the specification\<close>

text \<open>
  Modelled from the spec: \<^verbatim>\<open>create_regular_polygon\<close> of the core module is not among
  the sources. The specification gives it as: \<open>sides\<close> vertices on the circumscribed
  circle of the given radius, starting at angle \<open>rotation\<close>, evenly spaced by
  \<open>2\<pi>/sides\<close>, counter-clockwise; a non-positive radius or too few sides is an
  InvalidParameter.
\<close>

definition create_regular_polygon :: "point2 \<Rightarrow> real \<Rightarrow> int \<Rightarrow> real \<Rightarrow> error + point2 list" where
  "create_regular_polygon center radius sides rotation =
     (if radius \<le> 0 \<or> sides < 3 then Inl (InvalidParameter ''regular_polygon'')
      else Inr (map (\<lambda>k. (fst center + radius * cos (rotation + real k * (2 * pi / real_of_int sides)),
                          snd center + radius * sin (rotation + real k * (2 * pi / real_of_int sides))))
                 [0..<nat sides]))"

text \<open>
  Modelled from the spec: \<^verbatim>\<open>create_circle\<close> of the core module is not among the
  sources. The specification gives it as: \<open>num_points\<close> coordinates evenly spaced by
  angle \<open>2\<pi>/num_points\<close> on the circle, in order, starting (as a polygon of rotation 0
  does) on the positive x axis; InvalidParameter if \<open>radius \<le> 0\<close> or
  \<open>num_points < 3\<close>.
\<close>

definition create_circle :: "point2 \<Rightarrow> real \<Rightarrow> int \<Rightarrow> error + point2 list" where
  "create_circle center radius num_points =
     (if radius \<le> 0 \<or> num_points < 3 then Inl (InvalidParameter ''circle'')
      else Inr (map (\<lambda>k. (fst center + radius * cos (real k * (2 * pi / real_of_int num_points)),
                          snd center + radius * sin (real k * (2 * pi / real_of_int num_points))))
                 [0..<nat num_points]))"

text \<open>
  The rotation of a point by the angle \<open>theta\<close> about the point \<open>c\<close>, in which the
  symmetry of the mandala is stated.
\<close>

definition rotate_about :: "point2 \<Rightarrow> real \<Rightarrow> point2 \<Rightarrow> point2" where
  "rotate_about c theta p =
     (fst c + (fst p - fst c) * cos theta - (snd p - snd c) * sin theta,
      snd c + (fst p - fst c) * sin theta + (snd p - snd c) * cos theta)"

section \<open>Properties of combine_patterns\<close>

lemma combine_patterns_apply:
  "combine_patterns A B k =
     (if k = ''3d_shapes'' then Some (dict_get A ''3d_shapes'' [] @ dict_get B ''3d_shapes'' [])
      else if k = ''polygons'' then Some (dict_get A ''polygons'' [] @ dict_get B ''polygons'' [])
      else if k = ''lines'' then Some (dict_get A ''lines'' [] @ dict_get B ''lines'' [])
      else if k = ''circles'' then Some (dict_get A ''circles'' [] @ dict_get B ''circles'' [])
      else None)"
  by (simp add: combine_patterns_def)

lemma dict_get_combine_patterns:
  "k \<in> categories \<Longrightarrow>
     dict_get (combine_patterns A B) k [] = dict_get A k [] @ dict_get B k []"
  by (auto simp add: categories_def dict_get_def combine_patterns_apply)

lemma dict_get_absent: "d k = None \<Longrightarrow> dict_get d k dflt = dflt"
  by (simp add: dict_get_def)

lemma dict_get_present: "d k = Some v \<Longrightarrow> dict_get d k dflt = v"
  by (simp add: dict_get_def)

text \<open>
  Claim C2. \<^verbatim>\<open>combine_patterns\<close> is associative: for all compositions A, B and C,
  combining (A with B) with C gives the same dict as combining A with (B with C).
\<close>

theorem combine_patterns_assoc:
  "combine_patterns (combine_patterns A B) C = combine_patterns A (combine_patterns B C)"
proof (rule ext)
  fix k
  have c: "''circles'' \<in> categories" and l: "''lines'' \<in> categories"
    and p: "''polygons'' \<in> categories" and s: "''3d_shapes'' \<in> categories"
    by (simp_all add: categories_def)
  show "combine_patterns (combine_patterns A B) C k = combine_patterns A (combine_patterns B C) k"
    unfolding combine_patterns_apply [of "combine_patterns A B" C k]
      combine_patterns_apply [of A "combine_patterns B C" k]
    by (simp add: dict_get_combine_patterns [OF c] dict_get_combine_patterns [OF l]
        dict_get_combine_patterns [OF p] dict_get_combine_patterns [OF s])
qed


lemma in_categories_cases:
  "k \<in> categories \<Longrightarrow> k = ''circles'' \<or> k = ''lines'' \<or> k = ''polygons'' \<or> k = ''3d_shapes''"
  by (simp add: categories_def)

lemma combine_patterns_in:
  assumes "k \<in> categories"
  shows "combine_patterns A B k = Some (dict_get A k [] @ dict_get B k [])"
  using in_categories_cases [OF assms]
  by (elim disjE) (simp_all add: combine_patterns_apply)

lemma combine_patterns_out:
  assumes "k \<notin> categories"
  shows "combine_patterns A B k = None"
  using assms by (simp add: categories_def combine_patterns_apply)

lemma dict_get_empty: "dict_get empty_composition k [] = []"
  by (simp add: dict_get_def empty_composition_def)

lemma combine_patterns_empty_right:
  assumes "dom A = categories"
  shows "combine_patterns A empty_composition = A"
proof (rule ext)
  fix k
  show "combine_patterns A empty_composition k = A k"
  proof (cases "k \<in> categories")
    case True
    with assms have "k \<in> dom A" by simp
    then obtain xs where xs: "A k = Some xs" by blast
    show ?thesis
      by (simp add: combine_patterns_in [OF True] dict_get_empty dict_get_present [of A k xs] xs)
  next
    case False
    with assms have "k \<notin> dom A" by simp
    then have "A k = None" by blast
    then show ?thesis
      by (simp add: combine_patterns_out [OF False])
  qed
qed

lemma combine_patterns_empty_left:
  assumes "dom A = categories"
  shows "combine_patterns empty_composition A = A"
proof (rule ext)
  fix k
  show "combine_patterns empty_composition A k = A k"
  proof (cases "k \<in> categories")
    case True
    with assms have "k \<in> dom A" by simp
    then obtain xs where xs: "A k = Some xs" by blast
    show ?thesis
      by (simp add: combine_patterns_in [OF True] dict_get_empty dict_get_present [of A k xs] xs)
  next
    case False
    with assms have "k \<notin> dom A" by simp
    then have "A k = None" by blast
    then show ?thesis
      by (simp add: combine_patterns_out [OF False])
  qed
qed

lemma dict_get_blank: "dict_get blank_composition k [] = []"
  by (simp add: dict_get_def blank_composition_def)

lemma combine_patterns_blank_right:
  "combine_patterns A blank_composition = combine_patterns A empty_composition"
  by (simp add: combine_patterns_def dict_get_blank dict_get_empty)

lemma combine_patterns_blank_left:
  "combine_patterns blank_composition A = combine_patterns empty_composition A"
  by (simp add: combine_patterns_def dict_get_blank dict_get_empty)

text \<open>
  Claim C3, amended. For every composition A whose key set is exactly the four
  categories circles, lines, polygons and 3d_shapes, combining A with the empty
  composition on either side returns A; this holds for the empty dict and for the
  composition of four empty lists alike.
\<close>

theorem combine_patterns_identity:
  assumes "dom A = categories"
  shows "combine_patterns A empty_composition = A \<and> combine_patterns empty_composition A = A \<and>
         combine_patterns A blank_composition = A \<and> combine_patterns blank_composition A = A"
  by (simp add: combine_patterns_empty_right [OF assms] combine_patterns_empty_left [OF assms]
      combine_patterns_blank_right combine_patterns_blank_left)

text \<open>
  Claim C3 as stated (the empty composition is an identity for every composition A)
  fails. The dict that \<^verbatim>\<open>create_layered_flower_of_life\<close> returns has the keys
  circles, lines and polygons only; combining it with the empty dict adds the key
  3d_shapes, bound to the empty list, so the result differs from A as a dict.
\<close>

theorem combine_patterns_identity_counterexample:
  "combine_patterns [''circles'' \<mapsto> [0::nat], ''lines'' \<mapsto> [], ''polygons'' \<mapsto> []] empty_composition
     \<noteq> [''circles'' \<mapsto> [0::nat], ''lines'' \<mapsto> [], ''polygons'' \<mapsto> []]"
proof
  assume "combine_patterns [''circles'' \<mapsto> [0::nat], ''lines'' \<mapsto> [], ''polygons'' \<mapsto> []] empty_composition
     = [''circles'' \<mapsto> [0::nat], ''lines'' \<mapsto> [], ''polygons'' \<mapsto> []]"
  then have "combine_patterns [''circles'' \<mapsto> [0::nat], ''lines'' \<mapsto> [], ''polygons'' \<mapsto> []]
       empty_composition ''3d_shapes''
     = [''circles'' \<mapsto> [0::nat], ''lines'' \<mapsto> [], ''polygons'' \<mapsto> []] ''3d_shapes''"
    by (rule fun_cong)
  then show False
    by (simp add: combine_patterns_apply)
qed

lemma dom_four:
  "dom [''circles'' \<mapsto> a, ''lines'' \<mapsto> b, ''polygons'' \<mapsto> c, ''3d_shapes'' \<mapsto> d] = categories"
  unfolding categories_def dom_map_upds by (simp add: insert_commute)

text \<open>The amended identity law at a composition with all four keys.\<close>

theorem combine_patterns_identity_witness:
  "dom [''circles'' \<mapsto> [0::nat], ''lines'' \<mapsto> [], ''polygons'' \<mapsto> [], ''3d_shapes'' \<mapsto> [1]] = categories \<and>
   combine_patterns [''circles'' \<mapsto> [0::nat], ''lines'' \<mapsto> [], ''polygons'' \<mapsto> [], ''3d_shapes'' \<mapsto> [1]]
       empty_composition
     = [''circles'' \<mapsto> [0::nat], ''lines'' \<mapsto> [], ''polygons'' \<mapsto> [], ''3d_shapes'' \<mapsto> [1]] \<and>
   combine_patterns empty_composition
       [''circles'' \<mapsto> [0::nat], ''lines'' \<mapsto> [], ''polygons'' \<mapsto> [], ''3d_shapes'' \<mapsto> [1]]
     = [''circles'' \<mapsto> [0::nat], ''lines'' \<mapsto> [], ''polygons'' \<mapsto> [], ''3d_shapes'' \<mapsto> [1]]"
proof -
  have d: "dom [''circles'' \<mapsto> [0::nat], ''lines'' \<mapsto> [], ''polygons'' \<mapsto> [], ''3d_shapes'' \<mapsto> [1]]
      = categories"
    by (rule dom_four)
  from combine_patterns_identity [OF d] d show ?thesis by blast
qed

text \<open>
  Claim C9. For all input dicts A and B the dict returned by \<^verbatim>\<open>combine_patterns\<close>
  has exactly the four keys circles, lines, polygons and 3d_shapes. Under each of them
  it holds the list of A followed by the list of B, a key absent from an input counting
  as the empty list; any other key of A or B is absent from the result.
\<close>

theorem combine_patterns_keys:
  "dom (combine_patterns A B) = {''circles'', ''lines'', ''polygons'', ''3d_shapes''} \<and>
   (k \<in> categories \<longrightarrow>
      combine_patterns A B k =
        Some ((case A k of None \<Rightarrow> [] | Some xs \<Rightarrow> xs) @ (case B k of None \<Rightarrow> [] | Some ys \<Rightarrow> ys))) \<and>
   (k \<notin> categories \<longrightarrow> combine_patterns A B k = None)"
proof -
  have "dom (combine_patterns A B) = categories"
    unfolding combine_patterns_def by (rule dom_four)
  then have "dom (combine_patterns A B) = {''circles'', ''lines'', ''polygons'', ''3d_shapes''}"
    by (simp only: categories_def)
  moreover have "k \<in> categories \<longrightarrow>
      combine_patterns A B k =
        Some ((case A k of None \<Rightarrow> [] | Some xs \<Rightarrow> xs) @ (case B k of None \<Rightarrow> [] | Some ys \<Rightarrow> ys))"
    using combine_patterns_in [of k A B] by (simp add: dict_get_def)
  moreover have "k \<notin> categories \<longrightarrow> combine_patterns A B k = None"
    using combine_patterns_out [of k A B] by simp
  ultimately show ?thesis by blast
qed

text \<open>
  The key set at two inputs that lack categories and carry a foreign key: the key lines,
  absent from the first input, holds the second input's list, and the foreign key extra
  is dropped.
\<close>

theorem combine_patterns_keys_witness:
  "dom (combine_patterns [''circles'' \<mapsto> [1::nat], ''extra'' \<mapsto> [7]] [''circles'' \<mapsto> [2], ''lines'' \<mapsto> [3]])
     = {''circles'', ''lines'', ''polygons'', ''3d_shapes''} \<and>
   ''lines'' \<in> categories \<and>
   combine_patterns [''circles'' \<mapsto> [1::nat], ''extra'' \<mapsto> [7]] [''circles'' \<mapsto> [2], ''lines'' \<mapsto> [3]] ''lines''
     = Some [3] \<and>
   ''extra'' \<notin> categories \<and>
   combine_patterns [''circles'' \<mapsto> [1::nat], ''extra'' \<mapsto> [7]] [''circles'' \<mapsto> [2], ''lines'' \<mapsto> [3]] ''extra''
     = None"
proof -
  have l: "''lines'' \<in> categories" and e: "''extra'' \<notin> categories"
    by (simp_all add: categories_def)
  have 1: "combine_patterns [''circles'' \<mapsto> [1::nat], ''extra'' \<mapsto> [7]] [''circles'' \<mapsto> [2], ''lines'' \<mapsto> [3]] ''lines''
     = Some [3]"
    using combine_patterns_keys [of "[''circles'' \<mapsto> [1::nat], ''extra'' \<mapsto> [7]]"
      "[''circles'' \<mapsto> [2], ''lines'' \<mapsto> [3]]" "''lines''"] l by simp
  have 2: "combine_patterns [''circles'' \<mapsto> [1::nat], ''extra'' \<mapsto> [7]] [''circles'' \<mapsto> [2], ''lines'' \<mapsto> [3]] ''extra''
     = None"
    using combine_patterns_keys [of "[''circles'' \<mapsto> [1::nat], ''extra'' \<mapsto> [7]]"
      "[''circles'' \<mapsto> [2], ''lines'' \<mapsto> [3]]" "''extra''"] e by simp
  have 3: "dom (combine_patterns [''circles'' \<mapsto> [1::nat], ''extra'' \<mapsto> [7]] [''circles'' \<mapsto> [2], ''lines'' \<mapsto> [3]])
     = {''circles'', ''lines'', ''polygons'', ''3d_shapes''}"
    using combine_patterns_keys [of "[''circles'' \<mapsto> [1::nat], ''extra'' \<mapsto> [7]]"
      "[''circles'' \<mapsto> [2], ''lines'' \<mapsto> [3]]" "''lines''"] by blast
  from 1 2 3 l e show ?thesis by blast
qed

section \<open>Properties of create_layered_flower_of_life\<close>

text \<open>
  Claim C4. Whenever the length of \<^verbatim>\<open>layers_per_radius\<close>, of a given
  \<^verbatim>\<open>offsets\<close> list or of a given \<^verbatim>\<open>rotations\<close> list differs from the length of
  \<^verbatim>\<open>radii\<close>, the call fails with the module's mismatch error before any generation:
  the list of generator invocations is empty and no dict is returned. (The error is a
  Python ValueError carrying the mismatch message; it is what the specification's
  taxonomy calls ConfigurationError.)
\<close>

theorem layered_flower_mismatch_fails_first:
  assumes "length layers_per_radius \<noteq> length radii \<or>
           (case offsets of None \<Rightarrow> False | Some offs \<Rightarrow> length offs \<noteq> length radii) \<or>
           (case rotations of None \<Rightarrow> False | Some rots \<Rightarrow> length rots \<noteq> length radii)"
  shows "create_layered_flower_of_life create_flower_of_life center radii layers_per_radius
           offsets rotations =
         ([], Inl (ValueError
            ''Mismatch in lengths of radii, layers_per_radius, offsets, or rotations.''))"
proof -
  have "\<not> (length layers_per_radius = length radii \<and>
            length (effective_offsets (length radii) offsets) = length radii \<and>
            length (effective_rotations (length radii) rotations) = length radii)"
    using assms
    by (auto simp add: effective_offsets_def effective_rotations_def split: option.splits)
  then show ?thesis
    by (simp add: create_layered_flower_of_life_def Let_def)
qed

text \<open>A call with two radii and one layer count: it fails without a generator call.\<close>

theorem layered_flower_mismatch_witness:
  "create_layered_flower_of_life (\<lambda>c r l. Inr [(c, r)]) (0, 0) [1, 1 / 2] [2] None None =
     ([], Inl (ValueError
        ''Mismatch in lengths of radii, layers_per_radius, offsets, or rotations.''))"
proof -
  have "length [2::int] \<noteq> length [1::real, 1 / 2] \<or>
        (case None :: point2 list option of None \<Rightarrow> False | Some offs \<Rightarrow> length offs \<noteq> length [1::real, 1 / 2]) \<or>
        (case None :: real list option of None \<Rightarrow> False | Some rots \<Rightarrow> length rots \<noteq> length [1::real, 1 / 2])"
    by simp
  then show ?thesis by (rule layered_flower_mismatch_fails_first)
qed

section \<open>Properties of create_platonic_solid_constellation\<close>

text \<open>
  Claim C10. The result of \<^verbatim>\<open>create_platonic_solid_constellation\<close> does not depend
  on \<^verbatim>\<open>solid_rotation_offset\<close>: two calls that differ in that argument only return
  the same outcome (the same error, or the same composition).
\<close>

theorem constellation_ignores_rotation_offset:
  "create_platonic_solid_constellation shapes_module solid_type num_solids arrangement_radius
     solid_radius solid_rotation_offset =
   create_platonic_solid_constellation shapes_module solid_type num_solids arrangement_radius
     solid_radius solid_rotation_offset'"
  by (simp add: create_platonic_solid_constellation_def)

text \<open>Two cubes, once with offset 0 and once with offset \<open>\<pi>/7\<close>.\<close>

theorem constellation_ignores_rotation_offset_witness:
  "create_platonic_solid_constellation [''create_cube'' \<mapsto> (\<lambda>c r. Inr (c, r))] ''cube'' 2 5 1 0 =
   create_platonic_solid_constellation [''create_cube'' \<mapsto> (\<lambda>c r. Inr (c, r))] ''cube'' 2 5 1 (pi / 7)"
  by (rule constellation_ignores_rotation_offset)

lemma constellation_loop_Inr:
  "constellation_loop g R r step idxs acc = Inr out \<Longrightarrow>
     \<exists>outs. out = acc @ outs \<and> length outs = length idxs \<and>
       (\<forall>j<length idxs. g (solid_center R step (idxs ! j)) r = Inr (outs ! j))"
proof (induction idxs arbitrary: acc out)
  case Nil
  then show ?case by simp
next
  case (Cons i rest)
  from Cons.prems obtain s where s: "g (solid_center R step i) r = Inr s"
    and rest: "constellation_loop g R r step rest (acc @ [s]) = Inr out"
    by (auto split: sum.splits)
  from Cons.IH [OF rest] obtain outs where outs: "out = (acc @ [s]) @ outs"
    "length outs = length rest"
    "\<forall>j<length rest. g (solid_center R step (rest ! j)) r = Inr (outs ! j)"
    by blast
  have "\<forall>j<length (i # rest). g (solid_center R step ((i # rest) ! j)) r = Inr ((s # outs) ! j)"
  proof (intro allI impI)
    fix j assume "j < length (i # rest)"
    then show "g (solid_center R step ((i # rest) ! j)) r = Inr ((s # outs) ! j)"
      using s outs(3) by (cases j) auto
  qed
  with outs(1,2) show ?case
    by (intro exI [of _ "s # outs"]) simp
qed

lemma constellation_loop_Inl:
  "constellation_loop g R r step idxs acc = Inl e \<Longrightarrow>
     \<exists>j<length idxs. g (solid_center R step (idxs ! j)) r = Inl e"
proof (induction idxs arbitrary: acc)
  case Nil
  then show ?case by simp
next
  case (Cons i rest)
  show ?case
  proof (cases "g (solid_center R step i) r")
    case (Inl e')
    with Cons.prems have "e' = e" by simp
    with Inl have "g (solid_center R step ((i # rest) ! 0)) r = Inl e" by simp
    then show ?thesis by (intro exI [of _ 0]) simp
  next
    case (Inr s)
    with Cons.prems have "constellation_loop g R r step rest (acc @ [s]) = Inl e" by simp
    from Cons.IH [OF this] obtain j where "j < length rest"
      "g (solid_center R step (rest ! j)) r = Inl e" by blast
    then show ?thesis by (intro exI [of _ "Suc j"]) simp
  qed
qed

lemma solid_center_on_circle:
  "(fst (solid_center R a i))\<^sup>2 + (fst (snd (solid_center R a i)))\<^sup>2 = R\<^sup>2 \<and>
   snd (snd (solid_center R a i)) = 0"
proof -
  have "(R * cos (real i * a))\<^sup>2 + (R * sin (real i * a))\<^sup>2
      = R\<^sup>2 * ((cos (real i * a))\<^sup>2 + (sin (real i * a))\<^sup>2)"
    by (simp only: power_mult_distrib distrib_left)
  also have "\<dots> = R\<^sup>2" by (simp only: sin_cos_squared_add2 mult_1_right)
  finally show ?thesis by (simp add: solid_center_def Let_def)
qed

lemma py_div_zero: "py_div x 0 = Inl ZeroDivisionError"
  by (simp add: py_div_def)

lemma py_div_nonzero: "n \<noteq> 0 \<Longrightarrow> py_div x n = Inr (x / real_of_int n)"
  by (simp add: py_div_def)

text \<open>
  Claim C6, amended. When no generator named \<^verbatim>\<open>create_<solid_type>\<close> resolves, the call
  fails with the module's unsupported-type error, raised to the caller, and returns no
  composition: the name is not skipped. (The error is a Python ValueError with the
  message "Unsupported or unknown solid type"; it is what the specification's taxonomy
  calls UnsupportedShapeType.) When the name resolves to a generator \<open>g\<close> and
  \<open>num_solids \<ge> 1\<close>, the call either passes on the exception of one of \<open>g\<close>'s
  invocations, or returns a composition whose 3d_shapes are exactly \<open>num_solids\<close>
  solids, the \<open>i\<close>-th being what \<open>g\<close> generated at the \<open>i\<close>-th center. Every such
  center lies on the circle of radius \<^verbatim>\<open>arrangement_radius\<close> about the origin in the
  plane \<open>z = 0\<close>.
\<close>

theorem constellation_unknown_type_fails:
  "(shapes_module (''create_'' @ solid_type) = None \<longrightarrow>
      create_platonic_solid_constellation shapes_module solid_type num_solids arrangement_radius
        solid_radius solid_rotation_offset =
      Inl (ValueError (''Unsupported or unknown solid type: '' @ solid_type))) \<and>
   (shapes_module (''create_'' @ solid_type) = Some g \<longrightarrow> 1 \<le> num_solids \<longrightarrow>
      (case create_platonic_solid_constellation shapes_module solid_type num_solids
              arrangement_radius solid_radius solid_rotation_offset of
         Inl e \<Rightarrow>
           \<exists>i<nat num_solids.
             g (solid_center arrangement_radius (2 * pi / real_of_int num_solids) i) solid_radius = Inl e
       | Inr cmp \<Rightarrow>
           \<exists>shapes. cmp = [''3d_shapes'' \<mapsto> shapes, ''circles'' \<mapsto> [], ''lines'' \<mapsto> [],
                             ''polygons'' \<mapsto> []] \<and>
             int (length shapes) = num_solids \<and>
             (\<forall>i<nat num_solids.
                g (solid_center arrangement_radius (2 * pi / real_of_int num_solids) i) solid_radius
                  = Inr (shapes ! i)))) \<and>
   (fst (solid_center arrangement_radius angle i))\<^sup>2 +
     (fst (snd (solid_center arrangement_radius angle i)))\<^sup>2 = arrangement_radius\<^sup>2 \<and>
   snd (snd (solid_center arrangement_radius angle i)) = 0"
proof (intro conjI impI)
  assume "shapes_module (''create_'' @ solid_type) = None"
  then show "create_platonic_solid_constellation shapes_module solid_type num_solids
      arrangement_radius solid_radius solid_rotation_offset =
      Inl (ValueError (''Unsupported or unknown solid type: '' @ solid_type))"
    by (simp add: create_platonic_solid_constellation_def)
next
  let ?step = "2 * pi / real_of_int num_solids"
  let ?loop = "constellation_loop g arrangement_radius solid_radius ?step [0..<nat num_solids] []"
  assume g: "shapes_module (''create_'' @ solid_type) = Some g" and n: "1 \<le> num_solids"
  from n have dv: "py_div (2 * pi) num_solids = Inr ?step"
    by (simp add: py_div_nonzero)
  show "case create_platonic_solid_constellation shapes_module solid_type num_solids
              arrangement_radius solid_radius solid_rotation_offset of
         Inl e \<Rightarrow>
           \<exists>i<nat num_solids. g (solid_center arrangement_radius ?step i) solid_radius = Inl e
       | Inr cmp \<Rightarrow>
           \<exists>shapes. cmp = [''3d_shapes'' \<mapsto> shapes, ''circles'' \<mapsto> [], ''lines'' \<mapsto> [],
                             ''polygons'' \<mapsto> []] \<and>
             int (length shapes) = num_solids \<and>
             (\<forall>i<nat num_solids.
                g (solid_center arrangement_radius ?step i) solid_radius = Inr (shapes ! i))"
  proof (cases ?loop)
    case (Inl e)
    from constellation_loop_Inl [OF Inl]
    have "\<exists>i<nat num_solids. g (solid_center arrangement_radius ?step i) solid_radius = Inl e"
      by auto
    moreover have "create_platonic_solid_constellation shapes_module solid_type num_solids
        arrangement_radius solid_radius solid_rotation_offset = Inl e"
      using g Inl by (simp only: create_platonic_solid_constellation_def option.case dv sum.case)
    ultimately show ?thesis by (simp only: sum.case)
  next
    case (Inr out)
    from constellation_loop_Inr [OF Inr] n
    have "int (length out) = num_solids \<and>
          (\<forall>i<nat num_solids. g (solid_center arrangement_radius ?step i) solid_radius = Inr (out ! i))"
      by auto
    then have "\<exists>shapes.
        [''3d_shapes'' \<mapsto> out, ''circles'' \<mapsto> [], ''lines'' \<mapsto> [], ''polygons'' \<mapsto> []] =
        [''3d_shapes'' \<mapsto> shapes, ''circles'' \<mapsto> [], ''lines'' \<mapsto> [], ''polygons'' \<mapsto> []] \<and>
        int (length shapes) = num_solids \<and>
        (\<forall>i<nat num_solids.
           g (solid_center arrangement_radius ?step i) solid_radius = Inr (shapes ! i))"
      by (intro exI [of _ out]) simp
    moreover have "create_platonic_solid_constellation shapes_module solid_type num_solids
        arrangement_radius solid_radius solid_rotation_offset =
        Inr [''3d_shapes'' \<mapsto> out, ''circles'' \<mapsto> [], ''lines'' \<mapsto> [], ''polygons'' \<mapsto> []]"
      using g Inr by (simp only: create_platonic_solid_constellation_def option.case dv sum.case)
    ultimately show ?thesis by (simp only: sum.case)
  qed
next
  show "(fst (solid_center arrangement_radius angle i))\<^sup>2 +
     (fst (snd (solid_center arrangement_radius angle i)))\<^sup>2 = arrangement_radius\<^sup>2"
    using solid_center_on_circle [of arrangement_radius angle i] by blast
next
  show "snd (snd (solid_center arrangement_radius angle i)) = 0"
    using solid_center_on_circle [of arrangement_radius angle i] by blast
qed

text \<open>
  Claim C6 as stated (a resolvable type returns exactly \<open>num_solids\<close> solids) fails at
  \<open>num_solids = 0\<close>: with a shapes module that knows cubes, the call for zero cubes does
  not return the empty constellation but raises ZeroDivisionError, from the division
  \<^verbatim>\<open>2 * np.pi / num_solids\<close> that precedes the loop.
\<close>

theorem constellation_zero_solids_counterexample:
  "create_platonic_solid_constellation [''create_cube'' \<mapsto> (\<lambda>c r. Inr (c, r))] ''cube'' 0 5 1 0 =
     Inl ZeroDivisionError"
  by (simp add: create_platonic_solid_constellation_def py_div_zero)

text \<open>
  A shapes module that knows cubes only: the type blob fails, the type cube returns
  three solids.
\<close>

theorem constellation_unknown_type_witness:
  "create_platonic_solid_constellation [''create_cube'' \<mapsto> (\<lambda>c r. Inr (c, r))] ''blob'' 3 5 1 0 =
     Inl (ValueError ''Unsupported or unknown solid type: blob'') \<and>
   (\<exists>shapes.
      create_platonic_solid_constellation [''create_cube'' \<mapsto> (\<lambda>c r. Inr (c, r))] ''cube'' 3 5 1 0 =
        Inr [''3d_shapes'' \<mapsto> shapes, ''circles'' \<mapsto> [], ''lines'' \<mapsto> [], ''polygons'' \<mapsto> []] \<and>
      length shapes = 3)"
proof -
  let ?g = "\<lambda>(c::point3) (r::real). Inr (c, r) :: error + (point3 \<times> real)"
  let ?M = "[''create_cube'' \<mapsto> ?g]"
  have none: "?M (''create_'' @ ''blob'') = None" by simp
  have some: "?M (''create_'' @ ''cube'') = Some ?g" by simp
  have three: "(1::int) \<le> 3" by simp
  have 1: "create_platonic_solid_constellation ?M ''blob'' 3 5 1 0 =
     Inl (ValueError ''Unsupported or unknown solid type: blob'')"
    using constellation_unknown_type_fails [where shapes_module = ?M and solid_type = "''blob''"
        and g = ?g and num_solids = 3 and arrangement_radius = 5 and solid_radius = 1
        and solid_rotation_offset = 0 and angle = 0 and i = 0] none by simp
  have 2: "case create_platonic_solid_constellation ?M ''cube'' 3 5 1 0 of
         Inl e \<Rightarrow> \<exists>i<nat 3. ?g (solid_center 5 (2 * pi / real_of_int 3) i) 1 = Inl e
       | Inr cmp \<Rightarrow>
           \<exists>shapes. cmp = [''3d_shapes'' \<mapsto> shapes, ''circles'' \<mapsto> [], ''lines'' \<mapsto> [],
                             ''polygons'' \<mapsto> []] \<and>
             int (length shapes) = 3 \<and>
             (\<forall>i<nat 3. ?g (solid_center 5 (2 * pi / real_of_int 3) i) 1 = Inr (shapes ! i))"
    using constellation_unknown_type_fails [where shapes_module = ?M and solid_type = "''cube''"
        and g = ?g and num_solids = 3 and arrangement_radius = 5 and solid_radius = 1
        and solid_rotation_offset = 0 and angle = 0 and i = 0] some three by blast
  have 3: "\<exists>shapes.
      create_platonic_solid_constellation ?M ''cube'' 3 5 1 0 =
        Inr [''3d_shapes'' \<mapsto> shapes, ''circles'' \<mapsto> [], ''lines'' \<mapsto> [], ''polygons'' \<mapsto> []] \<and>
      length shapes = 3"
  proof (cases "create_platonic_solid_constellation ?M ''cube'' 3 5 1 0")
    case (Inl e)
    with 2 show ?thesis by simp
  next
    case (Inr cmp)
    with 2 show ?thesis by auto
  qed
  from 1 3 show ?thesis by blast
qed

section \<open>Properties of create_mandala_from_polygons\<close>


lemma create_mandala_nonzero:
  assumes "num_segments \<noteq> 0"
  shows "create_mandala_from_polygons gp gc center num_segments segment_elements base_radius =
     (case mandala_segments gp gc center (2 * pi / real_of_int num_segments)
             (case segment_elements of
                None \<Rightarrow> default_segment_elements base_radius
              | Some els \<Rightarrow> els)
             [0..<nat num_segments] ([], []) of
        Inl e \<Rightarrow> Inl e
      | Inr (all_polygons, all_circles) \<Rightarrow>
          Inr [''polygons'' \<mapsto> all_polygons, ''circles'' \<mapsto> all_circles, ''lines'' \<mapsto> []])"
  by (simp add: create_mandala_from_polygons_def segment_angle_step_def
      py_div_nonzero [OF assms])











lemma mandala_polygon_only_succeeds:
  "\<not> isl (create_mandala_from_polygons create_regular_polygon (\<lambda>c r. create_circle c r 8) (0, 0) 2
     (Some [\<lparr>spec_type = Some ''polygon'', spec_sides = Some 3, spec_radius = Some 1,
             spec_offset_r = Some 2, spec_offset_angle = None, spec_rotation = None\<rparr>]) 3)"
  by (simp add: create_mandala_nonzero numeral_2_eq_2 Let_def mandala_element_def
      create_regular_polygon_def get_or_def)


section \<open>Validation of radii\<close>








section \<open>Rotational symmetry of the mandala\<close>

lemma next_slot_cases:
  assumes "segment_angle_step n = Inr s" and "1 \<le> n" and "i < nat n"
  shows "real (Suc i mod nat n) * s =
           real i * s + s \<or>
         real i * s + s =
           real (Suc i mod nat n) * s + 2 * pi"
proof -
  let ?s = "s"
  have step: "real i * ?s + ?s = real (Suc i) * ?s"
    by (simp add: algebra_simps)
  show ?thesis
  proof (cases "Suc i < nat n")
    case True
    then have "Suc i mod nat n = Suc i" by simp
    with step show ?thesis by simp
  next
    case False
    with assms have last: "Suc i = nat n" by simp
    then have m: "Suc i mod nat n = 0" by simp
    from last assms have "real (Suc i) = real_of_int n" by simp
    moreover from assms have "real_of_int n \<noteq> 0" by simp
    moreover from assms(1) have "s = 2 * pi / real_of_int n"
      by (auto simp add: segment_angle_step_def py_div_def split: if_splits)
    ultimately have "real (Suc i) * ?s = 2 * pi"
      by simp
    with step m show ?thesis by simp
  qed
qed

lemma next_slot_cos:
  assumes "segment_angle_step n = Inr s" and "1 \<le> n" and "i < nat n"
  shows "cos (real (Suc i mod nat n) * s + x) =
           cos (real i * s + s + x)"
proof -
  from next_slot_cases [OF assms] show ?thesis
  proof
    assume "real (Suc i mod nat n) * s =
            real i * s + s"
    then show ?thesis by simp
  next
    let ?a = "real (Suc i mod nat n) * s"
    assume "real i * s + s = ?a + 2 * pi"
    then have "real i * s + s + x = (?a + x) + 2 * pi"
      by simp
    then show ?thesis by (simp only: cos_periodic)
  qed
qed

lemma next_slot_sin:
  assumes "segment_angle_step n = Inr s" and "1 \<le> n" and "i < nat n"
  shows "sin (real (Suc i mod nat n) * s + x) =
           sin (real i * s + s + x)"
proof -
  from next_slot_cases [OF assms] show ?thesis
  proof
    assume "real (Suc i mod nat n) * s =
            real i * s + s"
    then show ?thesis by simp
  next
    let ?a = "real (Suc i mod nat n) * s"
    assume "real i * s + s = ?a + 2 * pi"
    then have "real i * s + s + x = (?a + x) + 2 * pi"
      by simp
    then show ?thesis by (simp only: sin_periodic)
  qed
qed

lemma rotate_about_polar:
  "rotate_about c s (fst c + R * cos a + r * cos b, snd c + R * sin a + r * sin b) =
     (fst c + R * cos (a + s) + r * cos (b + s), snd c + R * sin (a + s) + r * sin (b + s))"
  by (simp add: rotate_about_def cos_add sin_add algebra_simps)

lemma rotate_about_polar1:
  "rotate_about c s (fst c + R * cos a, snd c + R * sin a) =
     (fst c + R * cos (a + s), snd c + R * sin (a + s))"
  using rotate_about_polar [of c s R a 0 0] by simp

lemma element_center_next_slot:
  assumes "segment_angle_step n = Inr s" and "1 \<le> n" and "i < nat n"
  shows "element_center center (real (Suc i mod nat n) * s) e =
         rotate_about center (s)
           (element_center center (real i * s) e)"
proof -
  let ?s = "s"
  let ?off = "get_or (spec_offset_angle e) 0"
  let ?R = "get_or (spec_offset_r e) 0"
  have "rotate_about center ?s (element_center center (real i * ?s) e) =
      (fst center + ?R * cos (real i * ?s + ?off + ?s), snd center + ?R * sin (real i * ?s + ?off + ?s))"
    by (simp add: element_center_def Let_def rotate_about_polar1)
  also have "real i * ?s + ?off + ?s = real i * ?s + ?s + ?off" by simp
  also have "(fst center + ?R * cos (real i * ?s + ?s + ?off),
              snd center + ?R * sin (real i * ?s + ?s + ?off)) =
      element_center center (real (Suc i mod nat n) * ?s) e"
    by (simp add: element_center_def Let_def next_slot_cos [OF assms] next_slot_sin [OF assms])
  finally show ?thesis by simp
qed

lemma vertex_next_slot:
  assumes "segment_angle_step n = Inr s" and "1 \<le> n" and "i < nat n"
  shows "(fst (element_center center (real (Suc i mod nat n) * s) e) +
            r * cos (rot + real (Suc i mod nat n) * s + t),
          snd (element_center center (real (Suc i mod nat n) * s) e) +
            r * sin (rot + real (Suc i mod nat n) * s + t)) =
         rotate_about center (s)
           (fst (element_center center (real i * s) e) +
              r * cos (rot + real i * s + t),
            snd (element_center center (real i * s) e) +
              r * sin (rot + real i * s + t))"
proof -
  let ?s = "s"
  let ?A = "real i * ?s" and ?A' = "real (Suc i mod nat n) * ?s"
  let ?off = "get_or (spec_offset_angle e) 0"
  let ?R = "get_or (spec_offset_r e) 0"
  have comm: "rot + ?A' + t = ?A' + (rot + t)" by simp
  have c: "cos (rot + ?A' + t) = cos (?A + ?s + (rot + t))"
    unfolding comm by (rule next_slot_cos [OF assms])
  have s: "sin (rot + ?A' + t) = sin (?A + ?s + (rot + t))"
    unfolding comm by (rule next_slot_sin [OF assms])
  have a1: "?A + ?off + ?s = ?A + ?s + ?off" and a2: "rot + ?A + t + ?s = ?A + ?s + (rot + t)"
    by simp_all
  have "rotate_about center ?s
           (fst (element_center center ?A e) + r * cos (rot + ?A + t),
            snd (element_center center ?A e) + r * sin (rot + ?A + t)) =
        rotate_about center ?s
           (fst center + ?R * cos (?A + ?off) + r * cos (rot + ?A + t),
            snd center + ?R * sin (?A + ?off) + r * sin (rot + ?A + t))"
    by (simp add: element_center_def Let_def)
  also have "\<dots> = (fst center + ?R * cos (?A + ?off + ?s) + r * cos (rot + ?A + t + ?s),
                     snd center + ?R * sin (?A + ?off + ?s) + r * sin (rot + ?A + t + ?s))"
    by (rule rotate_about_polar)
  also have "\<dots> = (fst center + ?R * cos (?A + ?s + ?off) + r * cos (?A + ?s + (rot + t)),
                     snd center + ?R * sin (?A + ?s + ?off) + r * sin (?A + ?s + (rot + t)))"
    by (simp only: a1 a2)
  also have "\<dots> = (fst center + ?R * cos (?A' + ?off) + r * cos (rot + ?A' + t),
                     snd center + ?R * sin (?A' + ?off) + r * sin (rot + ?A' + t))"
    by (simp only: c s next_slot_cos [OF assms] next_slot_sin [OF assms])
  also have "\<dots> = (fst (element_center center ?A' e) + r * cos (rot + ?A' + t),
                     snd (element_center center ?A' e) + r * sin (rot + ?A' + t))"
    by (simp add: element_center_def Let_def)
  finally show ?thesis by simp
qed

lemma polygon_next_slot:
  assumes "segment_angle_step n = Inr s" and "1 \<le> n" and "i < nat n"
    and "create_regular_polygon (element_center center (real i * s) e) r sides
           (rot + real i * s) = Inr poly"
  shows "create_regular_polygon
           (element_center center (real (Suc i mod nat n) * s) e) r sides
           (rot + real (Suc i mod nat n) * s) =
         Inr (map (rotate_about center (s)) poly)"
proof -
  from assms(4) have valid: "\<not> (r \<le> 0 \<or> sides < 3)"
    by (auto simp add: create_regular_polygon_def split: if_splits)
  with assms(4) have poly: "poly =
      map (\<lambda>k. (fst (element_center center (real i * s) e) +
                   r * cos (rot + real i * s + real k * (2 * pi / real_of_int sides)),
                 snd (element_center center (real i * s) e) +
                   r * sin (rot + real i * s + real k * (2 * pi / real_of_int sides))))
        [0..<nat sides]"
    by (auto simp add: create_regular_polygon_def)
  show ?thesis
    unfolding poly map_map comp_def vertex_next_slot [OF assms(1,2,3), symmetric]
    using valid by (simp add: create_regular_polygon_def)
qed

lemma circle_any_center:
  "create_circle c r num_points = Inr circ \<Longrightarrow> \<exists>circ'. create_circle c' r num_points = Inr circ'"
  by (auto simp add: create_circle_def split: if_splits)

lemma mandala_element_next_slot:
  assumes "segment_angle_step n = Inr s" and "1 \<le> n" and "i < nat n"
    and "mandala_element create_regular_polygon (\<lambda>c r. create_circle c r num_points) center
           (real i * s) e (ps0, cs0) = Inr (ps, cs)"
  shows "\<exists>cs'. mandala_element create_regular_polygon (\<lambda>c r. create_circle c r num_points) center
           (real (Suc i mod nat n) * s) e
           (map (map (rotate_about center (s))) ps0, cs0') =
         Inr (map (map (rotate_about center (s))) ps, cs')"
proof (cases "spec_type e = Some ''polygon''")
  case True
  with assms(4) obtain poly where
    poly: "create_regular_polygon (element_center center (real i * s) e)
             (get_or (spec_radius e) 0.1) (get_or (spec_sides e) 3)
             (get_or (spec_rotation e) 0 + real i * s) = Inr poly"
    and ps: "ps = ps0 @ [poly]"
    by (auto simp add: mandala_element_def Let_def split: sum.splits)
  from polygon_next_slot [OF assms(1,2,3) poly] True ps show ?thesis
    by (simp add: mandala_element_def Let_def)
next
  case False
  note not_polygon = False
  show ?thesis
  proof (cases "spec_type e = Some ''circle''")
    case True
    with not_polygon assms(4) obtain circ where
      circ: "create_circle (element_center center (real i * s) e)
               (get_or (spec_radius e) 0.1) num_points = Inr circ"
      and ps: "ps = ps0"
      by (auto simp add: mandala_element_def Let_def split: sum.splits)
    from circle_any_center [OF circ] obtain circ' where
      "create_circle (element_center center (real (Suc i mod nat n) * s) e)
         (get_or (spec_radius e) 0.1) num_points = Inr circ'"
      by blast
    with True not_polygon ps show ?thesis
      by (simp add: mandala_element_def Let_def)
  next
    case False
    with not_polygon assms(4) show ?thesis
      by (simp add: mandala_element_def Let_def)
  qed
qed

lemma mandala_segment_next_slot:
  assumes "segment_angle_step n = Inr s" and "1 \<le> n" and "i < nat n"
  shows "mandala_segment create_regular_polygon (\<lambda>c r. create_circle c r num_points) center
           (real i * s) els (ps0, cs0) = Inr (ps, cs) \<Longrightarrow>
         \<exists>cs'. mandala_segment create_regular_polygon (\<lambda>c r. create_circle c r num_points) center
           (real (Suc i mod nat n) * s) els
           (map (map (rotate_about center (s))) ps0, cs0') =
         Inr (map (map (rotate_about center (s))) ps, cs')"
proof (induction els arbitrary: ps0 cs0 cs0')
  case Nil
  then show ?case by simp
next
  case (Cons e rest)
  from Cons.prems obtain ps1 cs1 where
    el: "mandala_element create_regular_polygon (\<lambda>c r. create_circle c r num_points) center
           (real i * s) e (ps0, cs0) = Inr (ps1, cs1)"
    and rest: "mandala_segment create_regular_polygon (\<lambda>c r. create_circle c r num_points) center
           (real i * s) rest (ps1, cs1) = Inr (ps, cs)"
    by (auto split: sum.splits)
  from mandala_element_next_slot [OF assms el, of cs0'] obtain cs1' where
    el': "mandala_element create_regular_polygon (\<lambda>c r. create_circle c r num_points) center
           (real (Suc i mod nat n) * s) e
           (map (map (rotate_about center (s))) ps0, cs0') =
         Inr (map (map (rotate_about center (s))) ps1, cs1')"
    by blast
  from Cons.IH [OF rest, of cs1'] el' show ?case by simp
qed

lemma mandala_element_acc:
  "mandala_element gp gc center a e (ps0, cs0) =
     (case mandala_element gp gc center a e ([], []) of
        Inl x \<Rightarrow> Inl x
      | Inr (ps, cs) \<Rightarrow> Inr (ps0 @ ps, cs0 @ cs))"
  by (simp add: mandala_element_def Let_def split: sum.splits)

lemma mandala_segment_acc:
  "mandala_segment gp gc center a els (ps0, cs0) =
     (case mandala_segment gp gc center a els ([], []) of
        Inl x \<Rightarrow> Inl x
      | Inr (ps, cs) \<Rightarrow> Inr (ps0 @ ps, cs0 @ cs))"
proof (induction els arbitrary: ps0 cs0)
  case Nil
  show ?case by simp
next
  case (Cons e rest)
  show ?case
  proof (cases "mandala_element gp gc center a e ([], [])")
    case (Inl x)
    then show ?thesis
      by (simp add: mandala_element_acc [of gp gc center a e ps0 cs0])
  next
    case (Inr acc1)
    obtain p c where acc1: "acc1 = (p, c)" by (cases acc1)
    have l: "mandala_segment gp gc center a (e # rest) (ps0, cs0) =
        mandala_segment gp gc center a rest (ps0 @ p, cs0 @ c)"
      using Inr acc1 by (simp add: mandala_element_acc [of gp gc center a e ps0 cs0])
    have r: "mandala_segment gp gc center a (e # rest) ([], []) =
        mandala_segment gp gc center a rest (p, c)"
      using Inr acc1 by simp
    show ?thesis
      unfolding l r Cons.IH [of "ps0 @ p" "cs0 @ c"] Cons.IH [of p c]
      by (simp split: sum.splits)
  qed
qed

lemma mandala_segments_slots:
  "mandala_segments gp gc center step els idxs (ps0, cs0) = Inr (ps, cs) \<Longrightarrow>
     \<exists>slots. length slots = length idxs \<and>
       (\<forall>j<length idxs.
          mandala_segment gp gc center (real (idxs ! j) * step) els ([], []) = Inr (slots ! j)) \<and>
       ps = ps0 @ concat (map fst slots) \<and> cs = cs0 @ concat (map snd slots)"
proof (induction idxs arbitrary: ps0 cs0)
  case Nil
  then show ?case by simp
next
  case (Cons i rest)
  from Cons.prems obtain ps1 cs1
    where seg: "mandala_segment gp gc center (real i * step) els (ps0, cs0) = Inr (ps1, cs1)"
    and tl: "mandala_segments gp gc center step els rest (ps1, cs1) = Inr (ps, cs)"
    by (auto simp add: Let_def split: sum.splits)
  from seg obtain p c
    where slot: "mandala_segment gp gc center (real i * step) els ([], []) = Inr (p, c)"
    and ps1: "ps1 = ps0 @ p" and cs1: "cs1 = cs0 @ c"
    by (auto simp add: mandala_segment_acc [of gp gc center _ els ps0 cs0] split: sum.splits)
  from Cons.IH [OF tl] obtain slots where slots: "length slots = length rest"
    "\<forall>j<length rest.
       mandala_segment gp gc center (real (rest ! j) * step) els ([], []) = Inr (slots ! j)"
    "ps = ps1 @ concat (map fst slots)" "cs = cs1 @ concat (map snd slots)"
    by blast
  have "\<forall>j<length (i # rest).
       mandala_segment gp gc center (real ((i # rest) ! j) * step) els ([], []) =
         Inr (((p, c) # slots) ! j)"
  proof (intro allI impI)
    fix j assume "j < length (i # rest)"
    then show "mandala_segment gp gc center (real ((i # rest) ! j) * step) els ([], []) =
         Inr (((p, c) # slots) ! j)"
      using slot slots(2) by (cases j) auto
  qed
  with slots(1,3,4) ps1 cs1 show ?case
    by (intro exI [of _ "(p, c) # slots"]) simp
qed

lemma mandala_element_circles:
  assumes "mandala_element gp gc center a e (ps0, cs0) = Inr (ps, cs)"
  shows "map Inr cs = map Inr cs0 @
     map (\<lambda>e. gc (element_center center a e) (get_or (spec_radius e) 0.1)) (filter is_circle_spec [e])"
  using assms
  by (auto simp add: mandala_element_def is_circle_spec_def Let_def split: if_splits sum.splits)

lemma mandala_segment_circles:
  "mandala_segment gp gc center a els (ps0, cs0) = Inr (ps, cs) \<Longrightarrow>
     map Inr cs = map Inr cs0 @
       map (\<lambda>e. gc (element_center center a e) (get_or (spec_radius e) 0.1))
         (filter is_circle_spec els)"
proof (induction els arbitrary: ps0 cs0)
  case Nil
  then show ?case by simp
next
  case (Cons e rest)
  from Cons.prems obtain ps1 cs1
    where el: "mandala_element gp gc center a e (ps0, cs0) = Inr (ps1, cs1)"
    and rest: "mandala_segment gp gc center a rest (ps1, cs1) = Inr (ps, cs)"
    by (auto split: sum.splits)
  from mandala_element_circles [OF el] Cons.IH [OF rest] show ?case by simp
qed

lemma segment_angle_step_positive:
  "1 \<le> n \<Longrightarrow> segment_angle_step n = Inr (2 * pi / real_of_int n)"
  by (simp add: segment_angle_step_def py_div_def)

text \<open>
  Claim C1, amended; the polygon and circle generators are taken as the specification
  describes them, and floats as reals. For \<open>num_segments \<ge> 1\<close>, whenever the call
  returns, its polygons and circles are the concatenation of one slot per segment, in
  order, slot \<open>i\<close> being what the loop body generates at the angle
  \<open>i * 2\<pi>/num_segments\<close>. Rotating the polygons of slot \<open>i\<close> by \<open>2\<pi>/num_segments\<close>
  about the center of the mandala gives the polygons of slot \<open>(i+1) mod num_segments\<close>,
  vertex by vertex. The circles of slot \<open>i\<close> are the circles generated at the element
  centers of slot \<open>i\<close> with the radii of their specs, and the rotation maps the element
  center of every spec in slot \<open>i\<close> to its element center in slot
  \<open>(i+1) mod num_segments\<close>: the circles of the next slot are generated at the rotated
  centers, with the same radii.
\<close>

theorem mandala_rotational_symmetry:
  assumes "1 \<le> num_segments"
    and "els = (case segment_elements of
                  None \<Rightarrow> default_segment_elements base_radius
                | Some given \<Rightarrow> given)"
    and "create_mandala_from_polygons create_regular_polygon (\<lambda>c r. create_circle c r num_points)
           center num_segments segment_elements base_radius = Inr cmp"
  shows "\<exists>slots. length slots = nat num_segments \<and>
           cmp = [''polygons'' \<mapsto> concat (map fst slots), ''circles'' \<mapsto> concat (map snd slots),
                  ''lines'' \<mapsto> []] \<and>
           (\<forall>i<nat num_segments.
              mandala_segment create_regular_polygon (\<lambda>c r. create_circle c r num_points) center
                (real i * (2 * pi / real_of_int num_segments)) els ([], []) = Inr (slots ! i) \<and>
              fst (slots ! (Suc i mod nat num_segments)) =
                map (map (rotate_about center (2 * pi / real_of_int num_segments))) (fst (slots ! i)) \<and>
              map Inr (snd (slots ! i)) =
                map (\<lambda>e. create_circle
                            (element_center center (real i * (2 * pi / real_of_int num_segments)) e)
                            (get_or (spec_radius e) 0.1) num_points)
                  (filter is_circle_spec els) \<and>
              (\<forall>e. element_center center
                      (real (Suc i mod nat num_segments) * (2 * pi / real_of_int num_segments)) e =
                    rotate_about center (2 * pi / real_of_int num_segments)
                      (element_center center (real i * (2 * pi / real_of_int num_segments)) e)))"
proof -
  define s where "s = 2 * pi / real_of_int num_segments"
  from assms(1) have step: "segment_angle_step num_segments = Inr s"
    unfolding s_def by (rule segment_angle_step_positive)
  let ?gc = "\<lambda>(c::point2) r. create_circle c r num_points"
  let ?n = "nat num_segments"
  let ?rot = "rotate_about center s"
  let ?seg = "\<lambda>i. mandala_segment create_regular_polygon ?gc center (real i * s) els ([], [])"
  have run: "create_mandala_from_polygons create_regular_polygon ?gc center num_segments
      segment_elements base_radius =
      (case mandala_segments create_regular_polygon ?gc center s els [0..<?n] ([], []) of
         Inl e \<Rightarrow> Inl e
       | Inr (all_polygons, all_circles) \<Rightarrow>
           Inr [''polygons'' \<mapsto> all_polygons, ''circles'' \<mapsto> all_circles, ''lines'' \<mapsto> []])"
    unfolding create_mandala_from_polygons_def Let_def step assms(2) by (simp only: sum.case)
  from assms(3) obtain ps cs
    where loop: "mandala_segments create_regular_polygon ?gc center s els [0..<?n] ([], []) =
                   Inr (ps, cs)"
      and cmp: "cmp = [''polygons'' \<mapsto> ps, ''circles'' \<mapsto> cs, ''lines'' \<mapsto> []]"
    unfolding run by (auto split: sum.splits)
  from mandala_segments_slots [OF loop] obtain slots
    where len: "length slots = ?n"
      and slot: "\<forall>j<?n. ?seg j = Inr (slots ! j)"
      and ps: "ps = concat (map fst slots)" and cs: "cs = concat (map snd slots)"
    by auto
  have sym: "?seg i = Inr (slots ! i) \<and>
      fst (slots ! (Suc i mod ?n)) = map (map ?rot) (fst (slots ! i)) \<and>
      map Inr (snd (slots ! i)) =
        map (\<lambda>e. create_circle (element_center center (real i * s) e)
                    (get_or (spec_radius e) 0.1) num_points)
          (filter is_circle_spec els) \<and>
      (\<forall>e. element_center center (real (Suc i mod ?n) * s) e =
            ?rot (element_center center (real i * s) e))"
    if i: "i < ?n" for i
  proof -
    from i have j: "Suc i mod ?n < ?n" by simp
    from slot i have here: "?seg i = Inr (fst (slots ! i), snd (slots ! i))" by simp
    from mandala_segment_next_slot [OF step assms(1) i here, of "[]"] obtain cs'
      where "?seg (Suc i mod ?n) = Inr (map (map ?rot) (fst (slots ! i)), cs')"
      by auto
    moreover from slot j have "?seg (Suc i mod ?n) = Inr (slots ! (Suc i mod ?n))" by simp
    ultimately have rot: "fst (slots ! (Suc i mod ?n)) = map (map ?rot) (fst (slots ! i))"
      by simp
    from mandala_segment_circles [OF here]
    have circ: "map Inr (snd (slots ! i)) =
        map (\<lambda>e. create_circle (element_center center (real i * s) e)
                    (get_or (spec_radius e) 0.1) num_points)
          (filter is_circle_spec els)"
      by simp
    from slot i rot circ element_center_next_slot [OF step assms(1) i, of center] show ?thesis
      by blast
  qed
  from len cmp ps cs sym have "\<exists>slots. length slots = nat num_segments \<and>
           cmp = [''polygons'' \<mapsto> concat (map fst slots), ''circles'' \<mapsto> concat (map snd slots),
                  ''lines'' \<mapsto> []] \<and>
           (\<forall>i<nat num_segments.
              mandala_segment create_regular_polygon ?gc center (real i * s) els ([], []) =
                Inr (slots ! i) \<and>
              fst (slots ! (Suc i mod nat num_segments)) = map (map ?rot) (fst (slots ! i)) \<and>
              map Inr (snd (slots ! i)) =
                map (\<lambda>e. create_circle (element_center center (real i * s) e)
                            (get_or (spec_radius e) 0.1) num_points)
                  (filter is_circle_spec els) \<and>
              (\<forall>e. element_center center (real (Suc i mod nat num_segments) * s) e =
                    ?rot (element_center center (real i * s) e)))"
    by (intro exI [of _ slots]) simp
  then show ?thesis unfolding s_def .
qed

lemma cos_240: "cos (4 * pi / 3) = - (1 / 2)"
proof -
  have "4 * pi / 3 = pi + pi / 3" by simp
  then have "cos (4 * pi / 3) = - cos (pi / 3)" by (simp only: cos_periodic_pi2)
  then show ?thesis by (simp add: cos_60)
qed

lemma sin_240: "sin (4 * pi / 3) = - (sqrt 3 / 2)"
proof -
  have "4 * pi / 3 = pi + pi / 3" by simp
  then have "sin (4 * pi / 3) = - sin (pi / 3)" by (simp only: sin_periodic_pi2)
  then show ?thesis by (simp add: sin_60)
qed

lemma circle_of_three_points:
  "create_circle (cx, cy) 1 3 =
     Inr [(cx + 1, cy), (cx - 1 / 2, cy + sqrt 3 / 2), (cx - 1 / 2, cy - sqrt 3 / 2)]"
proof -
  have idx: "[0..<3] = [0, 1, 2]"
    by (simp add: eval_nat_numeral upt_rec)
  show ?thesis
    by (simp add: create_circle_def idx cos_120 sin_120 cos_240 sin_240)
qed

text \<open>
  Claim C1 as stated (rotating the generated points of slot \<open>i\<close> gives the generated
  points of the next slot, circles included) fails for circles. Two segments, one circle
  spec of radius 1 at radial offset 2, three sample points per circle: the circle of
  slot 0 is sampled at (3,0), (3/2, \<open>\<surd>3/2\<close>), (3/2, \<open>-\<surd>3/2\<close>); rotated by \<open>2\<pi>/2\<close> these
  are (-3,0), (-3/2, \<open>-\<surd>3/2\<close>), (-3/2, \<open>\<surd>3/2\<close>); the circle of slot 1 is sampled at
  (-1,0), (-5/2, \<open>\<surd>3/2\<close>), (-5/2, \<open>-\<surd>3/2\<close>), and (-3,0) is not among its points.
\<close>

theorem mandala_circle_samples_counterexample:
  "create_mandala_from_polygons create_regular_polygon (\<lambda>c r. create_circle c r 3) (0, 0) 2
     (Some [\<lparr>spec_type = Some ''circle'', spec_sides = None, spec_radius = Some 1,
             spec_offset_r = Some 2, spec_offset_angle = None, spec_rotation = None\<rparr>]) 3 =
     Inr [''polygons'' \<mapsto> [],
          ''circles'' \<mapsto> [[(3, 0), (3 / 2, sqrt 3 / 2), (3 / 2, - (sqrt 3 / 2))],
                         [(- 1, 0), (- (5 / 2), sqrt 3 / 2), (- (5 / 2), - (sqrt 3 / 2))]],
          ''lines'' \<mapsto> []] \<and>
   map (rotate_about (0, 0) (2 * pi / 2))
       [(3, 0), (3 / 2, sqrt 3 / 2), (3 / 2, - (sqrt 3 / 2))] =
     [(- 3, 0), (- (3 / 2), - (sqrt 3 / 2)), (- (3 / 2), sqrt 3 / 2)] \<and>
   ((- 3, 0) :: point2) \<notin> set [(- 1, 0), (- (5 / 2), sqrt 3 / 2), (- (5 / 2), - (sqrt 3 / 2))]"
proof (intro conjI)
  have idx: "[0..<2] = [0, 1]"
    by (simp add: eval_nat_numeral upt_rec)
  show "create_mandala_from_polygons create_regular_polygon (\<lambda>c r. create_circle c r 3) (0, 0) 2
     (Some [\<lparr>spec_type = Some ''circle'', spec_sides = None, spec_radius = Some 1,
             spec_offset_r = Some 2, spec_offset_angle = None, spec_rotation = None\<rparr>]) 3 =
     Inr [''polygons'' \<mapsto> [],
          ''circles'' \<mapsto> [[(3, 0), (3 / 2, sqrt 3 / 2), (3 / 2, - (sqrt 3 / 2))],
                         [(- 1, 0), (- (5 / 2), sqrt 3 / 2), (- (5 / 2), - (sqrt 3 / 2))]],
          ''lines'' \<mapsto> []]"
    by (simp add: create_mandala_nonzero idx Let_def mandala_element_def
        element_center_def get_or_def circle_of_three_points)
  show "map (rotate_about (0, 0) (2 * pi / 2))
       [(3, 0), (3 / 2, sqrt 3 / 2), (3 / 2, - (sqrt 3 / 2))] =
     [(- 3, 0), (- (3 / 2), - (sqrt 3 / 2)), (- (3 / 2), sqrt 3 / 2)]"
    by (simp add: rotate_about_def)
  show "((- 3, 0) :: point2) \<notin> set [(- 1, 0), (- (5 / 2), sqrt 3 / 2), (- (5 / 2), - (sqrt 3 / 2))]"
    by simp
qed

text \<open>
  Two segments and one triangle spec: the triangle of slot 1 is the rotated triangle of
  slot 0, and the triangle of slot 0 is the rotated triangle of slot 1.
\<close>

theorem mandala_rotational_symmetry_witness:
  "\<exists>slots. length slots = 2 \<and>
     create_mandala_from_polygons create_regular_polygon (\<lambda>c r. create_circle c r 8) (0, 0) 2
       (Some [\<lparr>spec_type = Some ''polygon'', spec_sides = Some 3, spec_radius = Some 1,
               spec_offset_r = Some 2, spec_offset_angle = None, spec_rotation = None\<rparr>]) 3 =
       Inr [''polygons'' \<mapsto> concat (map fst slots), ''circles'' \<mapsto> concat (map snd slots),
            ''lines'' \<mapsto> []] \<and>
     fst (slots ! 1) = map (map (rotate_about (0, 0) (2 * pi / 2))) (fst (slots ! 0)) \<and>
     fst (slots ! 0) = map (map (rotate_about (0, 0) (2 * pi / 2))) (fst (slots ! 1))"
proof -
  let ?tri = "\<lparr>spec_type = Some ''polygon'', spec_sides = Some 3, spec_radius = Some 1,
             spec_offset_r = Some 2, spec_offset_angle = None, spec_rotation = None\<rparr>"
  let ?gc = "\<lambda>(c::point2) r. create_circle c r 8"
  let ?run = "create_mandala_from_polygons create_regular_polygon ?gc (0, 0) 2 (Some [?tri]) 3"
  from mandala_polygon_only_succeeds obtain cmp where cmp: "?run = Inr cmp"
    by (cases ?run) auto
  have two: "(1::int) \<le> 2" by simp
  have els: "[?tri] = (case Some [?tri] of
                  None \<Rightarrow> default_segment_elements 3
                | Some given \<Rightarrow> given)"
    by simp
  from mandala_rotational_symmetry [OF two els cmp] obtain slots
    where len: "length slots = nat 2"
      and out: "cmp = [''polygons'' \<mapsto> concat (map fst slots), ''circles'' \<mapsto> concat (map snd slots),
                  ''lines'' \<mapsto> []]"
      and sym: "\<forall>i<nat 2. fst (slots ! (Suc i mod nat 2)) =
                map (map (rotate_about (0, 0) (2 * pi / real_of_int 2))) (fst (slots ! i))"
    by blast
  from spec [OF sym, of 0]
  have a: "fst (slots ! 1) = map (map (rotate_about (0, 0) (2 * pi / 2))) (fst (slots ! 0))"
    by simp
  from spec [OF sym, of 1]
  have b: "fst (slots ! 0) = map (map (rotate_about (0, 0) (2 * pi / 2))) (fst (slots ! 1))"
    by simp
  from a b len out cmp show ?thesis
    by (intro exI [of _ slots]) simp
qed

lemma rotate_about_offset:
  "rotate_about c s (fst p + r * cos phi, snd p + r * sin phi) =
     (fst (rotate_about c s p) + r * cos (phi + s), snd (rotate_about c s p) + r * sin (phi + s))"
  by (simp add: rotate_about_def cos_add sin_add algebra_simps)

lemma same_direction_full_turn:
  assumes "cos (phi + s) = cos (phi::real)" and "sin (phi + s) = sin phi"
  shows "cos s = 1"
proof -
  have "cos s = cos (phi + s) * cos phi + sin (phi + s) * sin phi"
    using cos_diff [of "phi + s" phi] by simp
  also have "\<dots> = (cos phi)\<^sup>2 + (sin phi)\<^sup>2"
    by (simp add: assms power2_eq_square)
  finally show ?thesis by simp
qed

lemma segment_angle_step_no_full_turn:
  assumes "segment_angle_step n = Inr s" and "2 \<le> n"
  shows "cos s \<noteq> 1"
proof -
  from assms(1) have s: "s = 2 * pi / real_of_int n"
    by (auto simp add: segment_angle_step_def py_div_def split: if_splits)
  from assms(2) have pos: "0 < s"
    by (simp add: s)
  from assms(2) have "2 \<le> real_of_int n" by simp
  then have "2 * pi / real_of_int n \<le> 2 * pi / 2"
    by (intro divide_left_mono) simp_all
  then have le: "s \<le> pi"
    by (simp add: s)
  from cos_monotone_0_pi [of 0 s] pos le
  have "cos s < 1" by simp
  then show ?thesis by simp
qed

text \<open>
  The mismatch of the circle samples does not depend on the number of sample points:
  with two or more segments, no sample point of a circle of slot \<open>i\<close>, rotated by
  \<open>2\<pi>/num_segments\<close>, is the sample point of the same index of the corresponding
  circle of the next slot.
\<close>

lemma circle_samples_not_rotated:
  assumes "segment_angle_step n = Inr s" and "2 \<le> n" and "i < nat n"
    and "create_circle (element_center center (real i * s) e) r num_points =
           Inr circ"
    and "create_circle (element_center center (real (Suc i mod nat n) * s) e) r
           num_points = Inr circ'"
    and "k < nat num_points"
  shows "rotate_about center (s) (circ ! k) \<noteq> circ' ! k"
proof
  let ?s = "s"
  let ?c = "element_center center (real i * ?s) e"
  let ?c' = "element_center center (real (Suc i mod nat n) * ?s) e"
  let ?phi = "real k * (2 * pi / real_of_int num_points)"
  assume eq: "rotate_about center ?s (circ ! k) = circ' ! k"
  from assms(2) have n1: "1 \<le> n" by simp
  from assms(4) have r: "0 < r"
    by (auto simp add: create_circle_def split: if_splits)
  from assms(4,6) have here: "circ ! k = (fst ?c + r * cos ?phi, snd ?c + r * sin ?phi)"
    by (auto simp add: create_circle_def split: if_splits)
  from assms(5,6) have there: "circ' ! k = (fst ?c' + r * cos ?phi, snd ?c' + r * sin ?phi)"
    by (auto simp add: create_circle_def split: if_splits)
  have c': "?c' = rotate_about center ?s ?c"
    by (rule element_center_next_slot [OF assms(1) n1 assms(3)])
  have "rotate_about center ?s (circ ! k) =
      (fst ?c' + r * cos (?phi + ?s), snd ?c' + r * sin (?phi + ?s))"
    unfolding here c' by (rule rotate_about_offset)
  with eq there have "r * cos (?phi + ?s) = r * cos ?phi" and "r * sin (?phi + ?s) = r * sin ?phi"
    by simp_all
  with r have "cos (?phi + ?s) = cos ?phi" and "sin (?phi + ?s) = sin ?phi"
    by simp_all
  then have "cos ?s = 1" by (rule same_direction_full_turn)
  with segment_angle_step_no_full_turn [OF assms(1,2)] show False by simp
qed

end
